theory Spec2Isabelle
  imports Main
begin

section \<open>Volume metadata queries of \<open>pkg/util/types/pvc.go\<close>\<close>

subsection \<open>Data model\<close>

text \<open>
  The Kubernetes enumerations \<open>PersistentVolumeMode\<close>, \<open>PersistentVolumeAccessMode\<close> and
  \<open>PersistentVolumeClaimPhase\<close> are Go string types; the constants the source compares
  against are the strings below.
\<close>

type_synonym PersistentVolumeMode = string
type_synonym PersistentVolumeAccessMode = string
type_synonym PersistentVolumeClaimPhase = string

definition PersistentVolumeBlock :: PersistentVolumeMode where
  "PersistentVolumeBlock = ''Block''"

definition PersistentVolumeFilesystem :: PersistentVolumeMode where
  "PersistentVolumeFilesystem = ''Filesystem''"

definition ReadWriteOnce :: PersistentVolumeAccessMode where
  "ReadWriteOnce = ''ReadWriteOnce''"

definition ReadOnlyMany :: PersistentVolumeAccessMode where
  "ReadOnlyMany = ''ReadOnlyMany''"

definition ReadWriteMany :: PersistentVolumeAccessMode where
  "ReadWriteMany = ''ReadWriteMany''"

definition ClaimPending :: PersistentVolumeClaimPhase where
  "ClaimPending = ''Pending''"

definition ClaimBound :: PersistentVolumeClaimPhase where
  "ClaimBound = ''Bound''"

text \<open>
  The fields of the claim and of the volume that the source reads. A Go pointer field
  (\<open>*PersistentVolumeMode\<close>, \<open>*HostPathVolumeSource\<close>) is an \<open>option\<close>, \<open>None\<close>
  being \<open>nil\<close>. The volume's \<open>Spec\<close> field is named \<open>PVSpec\<close>, since a record field is a
  constant of the whole theory.
\<close>

record PersistentVolumeClaimSpec =
  AccessModes :: "PersistentVolumeAccessMode list"
  VolumeMode :: "PersistentVolumeMode option"
  VolumeName :: string

record PersistentVolumeClaimStatus =
  Phase :: PersistentVolumeClaimPhase

record PersistentVolumeClaim =
  Spec :: PersistentVolumeClaimSpec
  Status :: PersistentVolumeClaimStatus

record HostPathVolumeSource =
  Path :: string

record PersistentVolumeSpec =
  HostPath :: "HostPathVolumeSource option"

record PersistentVolume =
  PVSpec :: PersistentVolumeSpec

text \<open>
  A value of type \<open>interface{}\<close> as a store returns it: the nil interface, a pointer of
  dynamic type \<open>*PersistentVolumeClaim\<close> or \<open>*PersistentVolume\<close> (the pointer itself may
  be nil), or a value of any other dynamic type, named by a string.
\<close>

datatype object =
    ObjNil
  | ObjPVC "PersistentVolumeClaim option"
  | ObjPV "PersistentVolume option"
  | ObjOther string

text \<open>
  Errors. \<open>Errorf\<close> keeps the format string and the operands of a \<open>fmt.Errorf\<close> call;
  \<open>StatusError\<close> is an API status error with its reason; \<open>LookupError\<close> is any other
  error that a store or the client hands back.
\<close>

datatype fmt_arg = ArgString string | ArgObject object

datatype error =
    Errorf string "fmt_arg list"
  | StatusError string string
  | LookupError string

definition StatusReasonNotFound :: string where
  "StatusReasonNotFound = ''NotFound''"

text \<open>
  Modelled from the spec: \<open>errors.IsNotFound\<close> of the API machinery library is not part of
  the source file; the spec asks of the client "a distinguishable NotFound error
  condition". Here it holds of a status error whose reason is \<open>NotFound\<close>, and of no other
  error, nor of \<open>nil\<close>.
\<close>

fun IsNotFound :: "error option \<Rightarrow> bool" where
  "IsNotFound (Some (StatusError reason msg)) = (reason = StatusReasonNotFound)"
| "IsNotFound _ = False"

text \<open>
  The two collaborators, each reduced to the one method the source calls:
  \<open>store.GetByKey(key)\<close> and
  \<open>client.CoreV1().PersistentVolumeClaims(namespace).Get(ctx, name, opts)\<close>.
\<close>

record Store =
  GetByKey :: "string \<Rightarrow> object \<times> bool \<times> error option"

record KubevirtClient =
  PersistentVolumeClaimsGet :: "string \<Rightarrow> string \<Rightarrow> PersistentVolumeClaim option \<times> error option"

text \<open>
  A Go call either returns its results or panics; the one panic these functions can raise
  is the dereference of a nil pointer.
\<close>

datatype panic = NilPointerDereference

datatype 'a outcome = Returned 'a | Panic panic

definition deref :: "'a option \<Rightarrow> ('a \<Rightarrow> 'b outcome) \<Rightarrow> 'b outcome" where
  "deref p k = (case p of None \<Rightarrow> Panic NilPointerDereference | Some v \<Rightarrow> k v)"

text \<open>The comma-ok type assertions \<open>obj.(*T)\<close>: the pointer and whether the type matched.\<close>

fun assertPVC :: "object \<Rightarrow> PersistentVolumeClaim option \<times> bool" where
  "assertPVC (ObjPVC p) = (p, True)"
| "assertPVC _ = (None, False)"

fun assertPV :: "object \<Rightarrow> PersistentVolume option \<times> bool" where
  "assertPV (ObjPV p) = (p, True)"
| "assertPV _ = (None, False)"

subsection \<open>The predicates\<close>

definition isPVCBlock :: "PersistentVolumeClaim option \<Rightarrow> bool outcome" where
  "isPVCBlock pvc =
     deref pvc (\<lambda>c. Returned (case VolumeMode (Spec c) of
                                 None \<Rightarrow> False
                               | Some mode \<Rightarrow> mode = PersistentVolumeBlock))"

text \<open>The \<open>range\<close> loop of \<open>IsPVCShared\<close>, returning at the first match.\<close>

fun IsPVCShared_loop :: "PersistentVolumeAccessMode list \<Rightarrow> bool" where
  "IsPVCShared_loop [] = False"
| "IsPVCShared_loop (accessMode # rest) =
     (if accessMode = ReadWriteMany then True else IsPVCShared_loop rest)"

definition IsPVCShared :: "PersistentVolumeClaim option \<Rightarrow> bool outcome" where
  "IsPVCShared pvc = deref pvc (\<lambda>c. Returned (IsPVCShared_loop (AccessModes (Spec c))))"

subsection \<open>The queries\<close>

definition IsPVCBlockFromStore ::
  "Store \<Rightarrow> string \<Rightarrow> string
     \<Rightarrow> (PersistentVolumeClaim option \<times> bool \<times> bool \<times> error option) outcome" where
  "IsPVCBlockFromStore store namespace claimName =
     (case GetByKey store (namespace @ ''/'' @ claimName) of (obj, exists, err) \<Rightarrow>
        if err \<noteq> None \<or> \<not> exists then Returned (None, exists, False, err)
        else (case assertPVC obj of (pvc, ok) \<Rightarrow>
          if ok then
            (case isPVCBlock pvc of
               Panic p \<Rightarrow> Panic p
             | Returned b \<Rightarrow> Returned (fst (assertPVC obj), True, b, None))
          else Returned (None, False, False,
                         Some (Errorf ''this is not a PVC! %v'' [ArgObject obj]))))"

definition IsPVCBlockFromClient ::
  "KubevirtClient \<Rightarrow> string \<Rightarrow> string
     \<Rightarrow> (PersistentVolumeClaim option \<times> bool \<times> bool \<times> error option) outcome" where
  "IsPVCBlockFromClient client namespace claimName =
     (case PersistentVolumeClaimsGet client namespace claimName of (pvc, err) \<Rightarrow>
        if IsNotFound err then Returned (None, False, False, None)
        else if err \<noteq> None then Returned (None, False, False, err)
        else (case isPVCBlock pvc of
                Panic p \<Rightarrow> Panic p
              | Returned b \<Rightarrow> Returned (pvc, True, b, None)))"

definition IsSharedPVCFromClient ::
  "KubevirtClient \<Rightarrow> string \<Rightarrow> string
     \<Rightarrow> (PersistentVolumeClaim option \<times> bool \<times> error option) outcome" where
  "IsSharedPVCFromClient client namespace claimName =
     (case PersistentVolumeClaimsGet client namespace claimName of (pvc, err) \<Rightarrow>
        if err = None then
          (case IsPVCShared pvc of
             Panic p \<Rightarrow> Panic p
           | Returned isShared \<Rightarrow> Returned (pvc, isShared, err))
        else Returned (pvc, False, err))"

definition GetPVCHostPathFromStore ::
  "Store \<Rightarrow> Store \<Rightarrow> string \<Rightarrow> string \<Rightarrow> (string \<times> error option) outcome" where
  "GetPVCHostPathFromStore pvcStore pvStore namespace claimName =
     (case GetByKey pvcStore (namespace @ ''/'' @ claimName) of (obj, exists, err) \<Rightarrow>
        if err \<noteq> None then Returned ('''', err)
        else if \<not> exists then
          Returned ('''', Some (Errorf ''Unable to find PVC %s/%s''
                                  [ArgString namespace, ArgString claimName]))
        else
          let pvc = (if snd (assertPVC obj) then fst (assertPVC obj) else None) in
          deref pvc (\<lambda>c.
            if Phase (Status c) = ClaimBound \<and> VolumeName (Spec c) \<noteq> '''' then
              (case GetByKey pvStore (VolumeName (Spec c)) of (obj', exists', err') \<Rightarrow>
                 if err' \<noteq> None then Returned ('''', err')
                 else if \<not> exists' then
                   Returned ('''', Some (Errorf ''Unable to find PV %s''
                                           [ArgString (VolumeName (Spec c))]))
                 else
                   let pv = (if snd (assertPV obj') then fst (assertPV obj') else None) in
                   deref pv (\<lambda>v.
                     (case HostPath (PVSpec v) of
                        Some hostPath \<Rightarrow> Returned (Path hostPath, None)
                      | None \<Rightarrow> Returned ('''', None))))
            else Returned ('''', None)))"

subsection \<open>Stores, clients and records used as concrete inputs\<close>

definition mkClaim ::
  "PersistentVolumeAccessMode list \<Rightarrow> PersistentVolumeMode option \<Rightarrow> string
     \<Rightarrow> PersistentVolumeClaimPhase \<Rightarrow> PersistentVolumeClaim" where
  "mkClaim modes vmode vname phase =
     \<lparr>Spec = \<lparr>AccessModes = modes, VolumeMode = vmode, VolumeName = vname\<rparr>,
      Status = \<lparr>Phase = phase\<rparr>\<rparr>"

definition mkVolume :: "HostPathVolumeSource option \<Rightarrow> PersistentVolume" where
  "mkVolume hp = \<lparr>PVSpec = \<lparr>HostPath = hp\<rparr>\<rparr>"

text \<open>A store holding exactly one entry, and the empty store.\<close>

definition singleStore :: "string \<Rightarrow> object \<times> bool \<times> error option \<Rightarrow> Store" where
  "singleStore key entry = \<lparr>GetByKey = (\<lambda>k. if k = key then entry else (ObjNil, False, None))\<rparr>"

definition emptyStore :: Store where
  "emptyStore = \<lparr>GetByKey = (\<lambda>k. (ObjNil, False, None))\<rparr>"

text \<open>A client that answers every get the same way.\<close>

definition constClient :: "PersistentVolumeClaim option \<times> error option \<Rightarrow> KubevirtClient" where
  "constClient answer = \<lparr>PersistentVolumeClaimsGet = (\<lambda>ns n. answer)\<rparr>"

subsection \<open>Auxiliary facts\<close>

lemma isPVCBlock_Some:
  "isPVCBlock (Some c) = Returned (VolumeMode (Spec c) = Some PersistentVolumeBlock)"
  by (simp add: isPVCBlock_def deref_def split: option.splits)

lemma IsPVCShared_loop_mem: "IsPVCShared_loop modes = (ReadWriteMany \<in> set modes)"
  by (induction modes) auto

lemma assertPVC_mismatch: "(\<forall>p. obj \<noteq> ObjPVC p) \<Longrightarrow> \<not> snd (assertPVC obj)"
  by (cases obj) simp_all

lemma assertPV_mismatch: "(\<forall>p. obj \<noteq> ObjPV p) \<Longrightarrow> \<not> snd (assertPV obj)"
  by (cases obj) simp_all

lemma assertPV_ok: "snd (assertPV obj) \<Longrightarrow> fst (assertPV obj) = Some v \<Longrightarrow> obj = ObjPV (Some v)"
  by (cases obj) simp_all

text \<open>
  Once the claim store has answered with a claim record, host-path resolution is the
  second half of the function: the phase test, the volume lookup and the inspection of
  the volume.
\<close>

lemma GetPVCHostPathFromStore_claim:
  assumes "GetByKey pvcStore (namespace @ ''/'' @ claimName) = (ObjPVC (Some c), True, None)"
  shows "GetPVCHostPathFromStore pvcStore pvStore namespace claimName =
    (if Phase (Status c) = ClaimBound \<and> VolumeName (Spec c) \<noteq> '''' then
       (case GetByKey pvStore (VolumeName (Spec c)) of (obj', exists', err') \<Rightarrow>
          if err' \<noteq> None then Returned ('''', err')
          else if \<not> exists' then
            Returned ('''', Some (Errorf ''Unable to find PV %s'' [ArgString (VolumeName (Spec c))]))
          else deref (if snd (assertPV obj') then fst (assertPV obj') else None) (\<lambda>v.
                 (case HostPath (PVSpec v) of
                    Some hostPath \<Rightarrow> Returned (Path hostPath, None)
                  | None \<Rightarrow> Returned ('''', None))))
     else Returned ('''', None))"
  using assms by (simp add: GetPVCHostPathFromStore_def deref_def Let_def split: prod.splits)

text \<open>
  A wrong-typed object leaves the record pointer nil, and the next statement reads a
  field through it.
\<close>

lemma GetPVCHostPathFromStore_claim_mismatch:
  assumes "GetByKey pvcStore (namespace @ ''/'' @ claimName) = (obj, True, None)"
    and "\<forall>p. obj \<noteq> ObjPVC p"
  shows "GetPVCHostPathFromStore pvcStore pvStore namespace claimName
           = Panic NilPointerDereference"
  using assms(1) assertPVC_mismatch [OF assms(2)]
  by (simp add: GetPVCHostPathFromStore_def deref_def Let_def)

lemma GetPVCHostPathFromStore_volume_mismatch:
  assumes "GetByKey pvcStore (namespace @ ''/'' @ claimName) = (ObjPVC (Some c), True, None)"
    and "Phase (Status c) = ClaimBound" and "VolumeName (Spec c) \<noteq> ''''"
    and "GetByKey pvStore (VolumeName (Spec c)) = (obj', True, None)"
    and "\<forall>p. obj' \<noteq> ObjPV p"
  shows "GetPVCHostPathFromStore pvcStore pvStore namespace claimName
           = Panic NilPointerDereference"
  using assms(2-4) assertPV_mismatch [OF assms(5)]
  by (simp add: GetPVCHostPathFromStore_claim [OF assms(1)] deref_def)

subsection \<open>The block-mode and shared-access predicates\<close>

text \<open>
  Claim C5. \<open>isPVCBlock\<close>, given a claim record, returns true if and only if the
  volume-mode field is present and equals \<open>Block\<close>; with the field absent or set to
  any other value it returns false. The result depends on nothing but the record.
\<close>

theorem isPVCBlock_iff_Block:
  "isPVCBlock (Some c) = Returned (VolumeMode (Spec c) = Some PersistentVolumeBlock)"
  by (rule isPVCBlock_Some)

theorem isPVCBlock_iff_Block_witness:
  "isPVCBlock (Some (mkClaim [] (Some PersistentVolumeBlock) '''' ClaimPending)) = Returned True
   \<and> isPVCBlock (Some (mkClaim [] None '''' ClaimPending)) = Returned False
   \<and> isPVCBlock (Some (mkClaim [] (Some PersistentVolumeFilesystem) '''' ClaimPending))
       = Returned False"
  using isPVCBlock_iff_Block [of "mkClaim [] (Some PersistentVolumeBlock) '''' ClaimPending"]
        isPVCBlock_iff_Block [of "mkClaim [] None '''' ClaimPending"]
        isPVCBlock_iff_Block [of "mkClaim [] (Some PersistentVolumeFilesystem) '''' ClaimPending"]
  by (simp add: mkClaim_def PersistentVolumeBlock_def PersistentVolumeFilesystem_def)

text \<open>
  Claim C6. \<open>IsPVCShared\<close>, given a claim record, returns true if and only if
  \<open>ReadWriteMany\<close> occurs in the access-modes list, wherever it stands and however long
  the list is; on a list without it, the empty list included, it returns false.
\<close>

theorem IsPVCShared_iff_member:
  "IsPVCShared (Some c) = Returned (ReadWriteMany \<in> set (AccessModes (Spec c)))"
  by (simp add: IsPVCShared_def deref_def IsPVCShared_loop_mem)

theorem IsPVCShared_iff_member_witness:
  "IsPVCShared (Some (mkClaim [ReadWriteOnce, ReadOnlyMany, ReadWriteMany] None '''' ClaimPending))
     = Returned True
   \<and> IsPVCShared (Some (mkClaim [ReadWriteMany, ReadWriteOnce] None '''' ClaimPending))
     = Returned True
   \<and> IsPVCShared (Some (mkClaim [] None '''' ClaimPending)) = Returned False
   \<and> IsPVCShared (Some (mkClaim [ReadWriteOnce, ReadOnlyMany] None '''' ClaimPending))
     = Returned False"
  using IsPVCShared_iff_member
          [of "mkClaim [ReadWriteOnce, ReadOnlyMany, ReadWriteMany] None '''' ClaimPending"]
        IsPVCShared_iff_member [of "mkClaim [ReadWriteMany, ReadWriteOnce] None '''' ClaimPending"]
        IsPVCShared_iff_member [of "mkClaim [] None '''' ClaimPending"]
        IsPVCShared_iff_member [of "mkClaim [ReadWriteOnce, ReadOnlyMany] None '''' ClaimPending"]
  by (simp add: mkClaim_def ReadWriteOnce_def ReadOnlyMany_def ReadWriteMany_def)

subsection \<open>The client queries\<close>

text \<open>
  Claim C7. Whenever the client's get returns an error, \<open>IsSharedPVCFromClient\<close> returns
  that very error together with a false shared flag; a NotFound error is no exception.
\<close>

theorem IsSharedPVCFromClient_propagates_error:
  "PersistentVolumeClaimsGet client namespace claimName = (pvc, Some e)
   \<Longrightarrow> IsSharedPVCFromClient client namespace claimName = Returned (pvc, False, Some e)"
  by (simp add: IsSharedPVCFromClient_def)

theorem IsSharedPVCFromClient_propagates_error_witness:
  "PersistentVolumeClaimsGet (constClient (None, Some (StatusError StatusReasonNotFound ''gone'')))
       ''ns'' ''c1'' = (None, Some (StatusError StatusReasonNotFound ''gone''))
   \<and> IsNotFound (Some (StatusError StatusReasonNotFound ''gone''))
   \<and> IsSharedPVCFromClient (constClient (None, Some (StatusError StatusReasonNotFound ''gone'')))
       ''ns'' ''c1'' = Returned (None, False, Some (StatusError StatusReasonNotFound ''gone''))"
proof -
  let ?client = "constClient (None, Some (StatusError StatusReasonNotFound ''gone''))"
  have get: "PersistentVolumeClaimsGet ?client ''ns'' ''c1''
               = (None, Some (StatusError StatusReasonNotFound ''gone''))"
    by (simp add: constClient_def)
  from IsSharedPVCFromClient_propagates_error [OF get] get show ?thesis
    by simp
qed

text \<open>
  Claim C2. The store-backed and the API-backed block-mode queries agree: when the store
  holds the claim record \<open>c\<close> under the key \<open>namespace/claimName\<close> (found, no error) and
  the client's get for the same namespace and name returns \<open>c\<close> without error, both
  return the same quadruple: the claim, true, the value of \<open>isPVCBlock\<close> on it, no error.
\<close>

theorem IsPVCBlock_store_client_agree:
  assumes "GetByKey store (namespace @ ''/'' @ claimName) = (ObjPVC (Some c), True, None)"
    and "PersistentVolumeClaimsGet client namespace claimName = (Some c, None)"
  shows "IsPVCBlockFromStore store namespace claimName
           = IsPVCBlockFromClient client namespace claimName
         \<and> (\<exists>b. isPVCBlock (Some c) = Returned b
                \<and> IsPVCBlockFromStore store namespace claimName
                    = Returned (Some c, True, b, None)
                \<and> IsPVCBlockFromClient client namespace claimName
                    = Returned (Some c, True, b, None))"
  using assms by (simp add: IsPVCBlockFromStore_def IsPVCBlockFromClient_def isPVCBlock_Some)

theorem IsPVCBlock_store_client_agree_witness:
  "IsPVCBlockFromStore
       (singleStore ''ns/c1''
          (ObjPVC (Some (mkClaim [] (Some PersistentVolumeBlock) '''' ClaimPending)), True, None))
       ''ns'' ''c1''
     = IsPVCBlockFromClient
         (constClient (Some (mkClaim [] (Some PersistentVolumeBlock) '''' ClaimPending), None))
         ''ns'' ''c1''
   \<and> IsPVCBlockFromClient
         (constClient (Some (mkClaim [] (Some PersistentVolumeBlock) '''' ClaimPending), None))
         ''ns'' ''c1''
     = Returned (Some (mkClaim [] (Some PersistentVolumeBlock) '''' ClaimPending), True, True, None)"
proof -
  let ?c = "mkClaim [] (Some PersistentVolumeBlock) '''' ClaimPending"
  have s: "GetByKey (singleStore ''ns/c1'' (ObjPVC (Some ?c), True, None)) (''ns'' @ ''/'' @ ''c1'')
             = (ObjPVC (Some ?c), True, None)"
    by (simp add: singleStore_def)
  have g: "PersistentVolumeClaimsGet (constClient (Some ?c, None)) ''ns'' ''c1'' = (Some ?c, None)"
    by (simp add: constClient_def)
  have b: "isPVCBlock (Some ?c) = Returned True"
    by (simp add: isPVCBlock_Some mkClaim_def)
  from IsPVCBlock_store_client_agree [OF s g] b show ?thesis
    by auto
qed

text \<open>
  Claim C8. In both block-mode queries an absent claim is not an error. If the store has
  no entry under \<open>namespace/claimName\<close> and its lookup does not fail,
  \<open>IsPVCBlockFromStore\<close> returns (nil, false, false, nil); if the client's get fails with
  a NotFound error, \<open>IsPVCBlockFromClient\<close> returns (nil, false, false, nil).
\<close>

theorem IsPVCBlock_absent_is_benign:
  "(GetByKey store (namespace @ ''/'' @ claimName) = (obj, False, None)
      \<longrightarrow> IsPVCBlockFromStore store namespace claimName = Returned (None, False, False, None))
   \<and> (PersistentVolumeClaimsGet client namespace claimName = (pvc, err) \<and> IsNotFound err
      \<longrightarrow> IsPVCBlockFromClient client namespace claimName = Returned (None, False, False, None))"
  by (simp add: IsPVCBlockFromStore_def IsPVCBlockFromClient_def)

theorem IsPVCBlock_absent_is_benign_witness:
  "GetByKey emptyStore (''ns'' @ ''/'' @ ''c1'') = (ObjNil, False, None)
   \<and> IsPVCBlockFromStore emptyStore ''ns'' ''c1'' = Returned (None, False, False, None)
   \<and> IsNotFound (Some (StatusError StatusReasonNotFound ''gone''))
   \<and> IsPVCBlockFromClient (constClient (None, Some (StatusError StatusReasonNotFound ''gone'')))
        ''ns'' ''c1'' = Returned (None, False, False, None)"
proof -
  let ?err = "Some (StatusError StatusReasonNotFound ''gone'')"
  have s: "GetByKey emptyStore (''ns'' @ ''/'' @ ''c1'') = (ObjNil, False, None)"
    by (simp add: emptyStore_def)
  have g: "PersistentVolumeClaimsGet (constClient (None, ?err)) ''ns'' ''c1'' = (None, ?err)"
    by (simp add: constClient_def)
  have n: "IsNotFound ?err"
    by simp
  from IsPVCBlock_absent_is_benign
         [of emptyStore "''ns''" "''c1''" ObjNil "constClient (None, ?err)" None ?err]
       s g n
  show ?thesis by simp
qed

subsection \<open>The store-backed block-mode query\<close>

text \<open>
  Claim C9. When the store's lookup under \<open>namespace/claimName\<close> succeeds (found, no
  error) with an object whose type is not that of a claim, \<open>IsPVCBlockFromStore\<close> fails
  with the type-mismatch error that carries the object, and reports exists = false.
\<close>

theorem IsPVCBlockFromStore_type_mismatch:
  assumes "GetByKey store (namespace @ ''/'' @ claimName) = (obj, True, None)"
    and "\<forall>p. obj \<noteq> ObjPVC p"
  shows "IsPVCBlockFromStore store namespace claimName
           = Returned (None, False, False, Some (Errorf ''this is not a PVC! %v'' [ArgObject obj]))"
  using assms by (cases obj) (simp_all add: IsPVCBlockFromStore_def)

theorem IsPVCBlockFromStore_type_mismatch_witness:
  "GetByKey (singleStore ''ns/c1'' (ObjPV (Some (mkVolume None)), True, None))
       (''ns'' @ ''/'' @ ''c1'')
     = (ObjPV (Some (mkVolume None)), True, None)
   \<and> IsPVCBlockFromStore (singleStore ''ns/c1'' (ObjPV (Some (mkVolume None)), True, None))
       ''ns'' ''c1''
     = Returned (None, False, False,
         Some (Errorf ''this is not a PVC! %v'' [ArgObject (ObjPV (Some (mkVolume None)))]))"
proof -
  let ?obj = "ObjPV (Some (mkVolume None))"
  have s: "GetByKey (singleStore ''ns/c1'' (?obj, True, None)) (''ns'' @ ''/'' @ ''c1'')
             = (?obj, True, None)"
    by (simp add: singleStore_def)
  have t: "\<forall>p. ?obj \<noteq> ObjPVC p"
    by simp
  from IsPVCBlockFromStore_type_mismatch [OF s t] s show ?thesis
    by simp
qed

subsection \<open>Host-path resolution\<close>

text \<open>
  Claim C3. Let the claim store answer with a well-typed claim record. Then
  \<open>GetPVCHostPathFromStore\<close> returns the bound volume's host-path string with a nil
  error exactly when the claim's phase is \<open>Bound\<close>, its bound-volume name is not empty
  and the volume found under that name carries a host-path specification: the three
  conditions give that path, and a non-empty path returned without error implies them.
  When the phase is not \<open>Bound\<close> or the volume name is empty, the result is the empty
  path and no error whatever the volume store is, so the volume store is not consulted.
  When the bound volume is found and well-typed but has no host-path specification, the
  result is the empty path and no error.
\<close>

theorem GetPVCHostPathFromStore_resolution:
  assumes "GetByKey pvcStore (namespace @ ''/'' @ claimName) = (ObjPVC (Some c), True, None)"
  shows "(\<forall>v hostPath.
            Phase (Status c) = ClaimBound \<and> VolumeName (Spec c) \<noteq> ''''
            \<and> GetByKey pvStore (VolumeName (Spec c)) = (ObjPV (Some v), True, None)
            \<and> HostPath (PVSpec v) = Some hostPath
            \<longrightarrow> GetPVCHostPathFromStore pvcStore pvStore namespace claimName
                  = Returned (Path hostPath, None))
       \<and> (\<forall>path.
            GetPVCHostPathFromStore pvcStore pvStore namespace claimName = Returned (path, None)
            \<and> path \<noteq> ''''
            \<longrightarrow> Phase (Status c) = ClaimBound \<and> VolumeName (Spec c) \<noteq> ''''
                \<and> (\<exists>v hostPath.
                      GetByKey pvStore (VolumeName (Spec c)) = (ObjPV (Some v), True, None)
                      \<and> HostPath (PVSpec v) = Some hostPath \<and> path = Path hostPath))
       \<and> (Phase (Status c) \<noteq> ClaimBound \<or> VolumeName (Spec c) = ''''
            \<longrightarrow> (\<forall>anyStore. GetPVCHostPathFromStore pvcStore anyStore namespace claimName
                              = Returned ('''', None)))
       \<and> (\<forall>v.
            Phase (Status c) = ClaimBound \<and> VolumeName (Spec c) \<noteq> ''''
            \<and> GetByKey pvStore (VolumeName (Spec c)) = (ObjPV (Some v), True, None)
            \<and> HostPath (PVSpec v) = None
            \<longrightarrow> GetPVCHostPathFromStore pvcStore pvStore namespace claimName
                  = Returned ('''', None))"
proof (intro conjI allI impI)
  fix v hostPath
  assume "Phase (Status c) = ClaimBound \<and> VolumeName (Spec c) \<noteq> ''''
            \<and> GetByKey pvStore (VolumeName (Spec c)) = (ObjPV (Some v), True, None)
            \<and> HostPath (PVSpec v) = Some hostPath"
  then show "GetPVCHostPathFromStore pvcStore pvStore namespace claimName
               = Returned (Path hostPath, None)"
    by (simp add: GetPVCHostPathFromStore_claim [OF assms] deref_def)
next
  fix path
  assume r: "GetPVCHostPathFromStore pvcStore pvStore namespace claimName = Returned (path, None)
               \<and> path \<noteq> ''''"
  then show "Phase (Status c) = ClaimBound"
    by (auto simp: GetPVCHostPathFromStore_claim [OF assms] split: if_splits)
  from r show "VolumeName (Spec c) \<noteq> ''''"
    by (auto simp: GetPVCHostPathFromStore_claim [OF assms] split: if_splits)
  from r show "\<exists>v hostPath.
      GetByKey pvStore (VolumeName (Spec c)) = (ObjPV (Some v), True, None)
      \<and> HostPath (PVSpec v) = Some hostPath \<and> path = Path hostPath"
    by (auto simp: GetPVCHostPathFromStore_claim [OF assms] deref_def
             split: if_splits prod.splits option.splits dest: assertPV_ok)
next
  fix anyStore
  assume "Phase (Status c) \<noteq> ClaimBound \<or> VolumeName (Spec c) = ''''"
  then show "GetPVCHostPathFromStore pvcStore anyStore namespace claimName = Returned ('''', None)"
    by (auto simp: GetPVCHostPathFromStore_claim [OF assms])
next
  fix v
  assume "Phase (Status c) = ClaimBound \<and> VolumeName (Spec c) \<noteq> ''''
            \<and> GetByKey pvStore (VolumeName (Spec c)) = (ObjPV (Some v), True, None)
            \<and> HostPath (PVSpec v) = None"
  then show "GetPVCHostPathFromStore pvcStore pvStore namespace claimName = Returned ('''', None)"
    by (simp add: GetPVCHostPathFromStore_claim [OF assms] deref_def)
qed

theorem GetPVCHostPathFromStore_resolution_witness:
  "GetPVCHostPathFromStore
       (singleStore ''ns/c1'' (ObjPVC (Some (mkClaim [] None ''v1'' ClaimBound)), True, None))
       (singleStore ''v1'' (ObjPV (Some (mkVolume (Some \<lparr>Path = ''/data/x''\<rparr>))), True, None))
       ''ns'' ''c1''
     = Returned (''/data/x'', None)
   \<and> GetPVCHostPathFromStore
       (singleStore ''ns/c1'' (ObjPVC (Some (mkClaim [] None ''v1'' ClaimBound)), True, None))
       (singleStore ''v1'' (ObjPV (Some (mkVolume None)), True, None))
       ''ns'' ''c1''
     = Returned ('''', None)
   \<and> GetPVCHostPathFromStore
       (singleStore ''ns/c2'' (ObjPVC (Some (mkClaim [] None ''v1'' ClaimPending)), True, None))
       (singleStore ''v1'' (ObjNil, False, Some (LookupError ''volume store consulted'')))
       ''ns'' ''c2''
     = Returned ('''', None)"
proof -
  let ?bound = "mkClaim [] None ''v1'' ClaimBound"
  let ?pending = "mkClaim [] None ''v1'' ClaimPending"
  let ?hostVolume = "mkVolume (Some \<lparr>Path = ''/data/x''\<rparr>)"
  let ?otherVolume = "mkVolume None"
  let ?claims1 = "singleStore ''ns/c1'' (ObjPVC (Some ?bound), True, None)"
  let ?claims2 = "singleStore ''ns/c2'' (ObjPVC (Some ?pending), True, None)"
  let ?volumesA = "singleStore ''v1'' (ObjPV (Some ?hostVolume), True, None)"
  let ?volumesB = "singleStore ''v1'' (ObjPV (Some ?otherVolume), True, None)"
  let ?volumesC = "singleStore ''v1'' (ObjNil, False, Some (LookupError ''volume store consulted''))"
  have c1: "GetByKey ?claims1 (''ns'' @ ''/'' @ ''c1'') = (ObjPVC (Some ?bound), True, None)"
    by (simp add: singleStore_def)
  have c2: "GetByKey ?claims2 (''ns'' @ ''/'' @ ''c2'') = (ObjPVC (Some ?pending), True, None)"
    by (simp add: singleStore_def)
  have bound: "Phase (Status ?bound) = ClaimBound \<and> VolumeName (Spec ?bound) \<noteq> ''''"
    by (simp add: mkClaim_def)
  have pending: "Phase (Status ?pending) \<noteq> ClaimBound"
    by (simp add: mkClaim_def ClaimPending_def ClaimBound_def)
  have vA: "GetByKey ?volumesA (VolumeName (Spec ?bound)) = (ObjPV (Some ?hostVolume), True, None)
            \<and> HostPath (PVSpec ?hostVolume) = Some \<lparr>Path = ''/data/x''\<rparr>"
    by (simp add: singleStore_def mkClaim_def mkVolume_def)
  have vB: "GetByKey ?volumesB (VolumeName (Spec ?bound)) = (ObjPV (Some ?otherVolume), True, None)
            \<and> HostPath (PVSpec ?otherVolume) = None"
    by (simp add: singleStore_def mkClaim_def mkVolume_def)
  from GetPVCHostPathFromStore_resolution [OF c1, of ?volumesA] bound vA
  have r1: "GetPVCHostPathFromStore ?claims1 ?volumesA ''ns'' ''c1'' = Returned (''/data/x'', None)"
    by auto
  from GetPVCHostPathFromStore_resolution [OF c1, of ?volumesB] bound vB
  have r2: "GetPVCHostPathFromStore ?claims1 ?volumesB ''ns'' ''c1'' = Returned ('''', None)"
    by auto
  from GetPVCHostPathFromStore_resolution [OF c2, of ?volumesC] pending
  have r3: "GetPVCHostPathFromStore ?claims2 ?volumesC ''ns'' ''c2'' = Returned ('''', None)"
    by auto
  from r1 r2 r3 show ?thesis
    by simp
qed

text \<open>
  Claim C4. Absence is a hard failure at both lookups of \<open>GetPVCHostPathFromStore\<close>. If
  the claim store's lookup under \<open>namespace/claimName\<close> fails, its error is returned; if
  the key is missing, an "Unable to find PVC" error is returned. If the claim is
  \<open>Bound\<close> with a non-empty volume name and the volume store's lookup fails, its
  error is returned; if the volume name is missing there, an "Unable to find PV" error
  is returned. In each case the error is non-nil.
\<close>

theorem GetPVCHostPathFromStore_absence_fails:
  "(GetByKey pvcStore (namespace @ ''/'' @ claimName) = (obj, exists, Some e)
      \<longrightarrow> GetPVCHostPathFromStore pvcStore pvStore namespace claimName = Returned ('''', Some e))
   \<and> (GetByKey pvcStore (namespace @ ''/'' @ claimName) = (obj, False, None)
      \<longrightarrow> GetPVCHostPathFromStore pvcStore pvStore namespace claimName
            = Returned ('''', Some (Errorf ''Unable to find PVC %s/%s''
                                      [ArgString namespace, ArgString claimName])))
   \<and> (GetByKey pvcStore (namespace @ ''/'' @ claimName) = (ObjPVC (Some c), True, None)
       \<and> Phase (Status c) = ClaimBound \<and> VolumeName (Spec c) \<noteq> ''''
       \<and> GetByKey pvStore (VolumeName (Spec c)) = (obj', exists', Some e')
      \<longrightarrow> GetPVCHostPathFromStore pvcStore pvStore namespace claimName = Returned ('''', Some e'))
   \<and> (GetByKey pvcStore (namespace @ ''/'' @ claimName) = (ObjPVC (Some c), True, None)
       \<and> Phase (Status c) = ClaimBound \<and> VolumeName (Spec c) \<noteq> ''''
       \<and> GetByKey pvStore (VolumeName (Spec c)) = (obj', False, None)
      \<longrightarrow> GetPVCHostPathFromStore pvcStore pvStore namespace claimName
            = Returned ('''', Some (Errorf ''Unable to find PV %s''
                                      [ArgString (VolumeName (Spec c))])))"
  by (simp add: GetPVCHostPathFromStore_def deref_def Let_def)

theorem GetPVCHostPathFromStore_absence_fails_witness:
  "GetPVCHostPathFromStore
       (singleStore ''ns/c3'' (ObjNil, False, Some (LookupError ''claim store down'')))
       emptyStore ''ns'' ''c3''
     = Returned ('''', Some (LookupError ''claim store down''))
   \<and> GetPVCHostPathFromStore emptyStore emptyStore ''ns'' ''c3''
     = Returned ('''', Some (Errorf ''Unable to find PVC %s/%s''
                               [ArgString ''ns'', ArgString ''c3'']))
   \<and> GetPVCHostPathFromStore
       (singleStore ''ns/c1'' (ObjPVC (Some (mkClaim [] None ''v1'' ClaimBound)), True, None))
       (singleStore ''v1'' (ObjNil, False, Some (LookupError ''volume store down'')))
       ''ns'' ''c1''
     = Returned ('''', Some (LookupError ''volume store down''))
   \<and> GetPVCHostPathFromStore
       (singleStore ''ns/c1'' (ObjPVC (Some (mkClaim [] None ''v1'' ClaimBound)), True, None))
       emptyStore ''ns'' ''c1''
     = Returned ('''', Some (Errorf ''Unable to find PV %s'' [ArgString ''v1'']))"
proof -
  let ?bound = "mkClaim [] None ''v1'' ClaimBound"
  let ?failing = "singleStore ''ns/c3'' (ObjNil, False, Some (LookupError ''claim store down''))"
  let ?claims = "singleStore ''ns/c1'' (ObjPVC (Some ?bound), True, None)"
  let ?volumes = "singleStore ''v1'' (ObjNil, False, Some (LookupError ''volume store down''))"
  have a: "GetByKey ?failing (''ns'' @ ''/'' @ ''c3'')
             = (ObjNil, False, Some (LookupError ''claim store down''))"
    by (simp add: singleStore_def)
  have b: "GetByKey emptyStore (''ns'' @ ''/'' @ ''c3'') = (ObjNil, False, None)"
    by (simp add: emptyStore_def)
  have c: "GetByKey ?claims (''ns'' @ ''/'' @ ''c1'') = (ObjPVC (Some ?bound), True, None)
           \<and> Phase (Status ?bound) = ClaimBound \<and> VolumeName (Spec ?bound) \<noteq> ''''
           \<and> VolumeName (Spec ?bound) = ''v1''"
    by (simp add: singleStore_def mkClaim_def)
  have d: "GetByKey ?volumes (VolumeName (Spec ?bound))
             = (ObjNil, False, Some (LookupError ''volume store down''))"
    by (simp add: singleStore_def mkClaim_def)
  have e: "GetByKey emptyStore (VolumeName (Spec ?bound)) = (ObjNil, False, None)"
    by (simp add: emptyStore_def)
  from GetPVCHostPathFromStore_absence_fails
         [of ?failing "''ns''" "''c3''" ObjNil False "LookupError ''claim store down''" emptyStore] a
  have r1: "GetPVCHostPathFromStore ?failing emptyStore ''ns'' ''c3''
              = Returned ('''', Some (LookupError ''claim store down''))"
    by blast
  from GetPVCHostPathFromStore_absence_fails
         [of emptyStore "''ns''" "''c3''" ObjNil False _ emptyStore] b
  have r2: "GetPVCHostPathFromStore emptyStore emptyStore ''ns'' ''c3''
              = Returned ('''', Some (Errorf ''Unable to find PVC %s/%s''
                                        [ArgString ''ns'', ArgString ''c3'']))"
    by blast
  from GetPVCHostPathFromStore_absence_fails
         [of ?claims "''ns''" "''c1''" _ _ _ ?volumes ?bound ObjNil False
             "LookupError ''volume store down''"] c d
  have r3: "GetPVCHostPathFromStore ?claims ?volumes ''ns'' ''c1''
              = Returned ('''', Some (LookupError ''volume store down''))"
    by blast
  from GetPVCHostPathFromStore_absence_fails
         [of ?claims "''ns''" "''c1''" _ _ _ emptyStore ?bound ObjNil] c e
  have r4: "GetPVCHostPathFromStore ?claims emptyStore ''ns'' ''c1''
              = Returned ('''', Some (Errorf ''Unable to find PV %s'' [ArgString ''v1'']))"
    by auto
  from r1 r2 r3 r4 show ?thesis
    by simp
qed

text \<open>
  Claim C10. \<open>GetPVCHostPathFromStore\<close> never returns a path together with an error:
  whatever the stores, the namespace and the claim name, a result with a non-nil error
  has the empty path.
\<close>

theorem GetPVCHostPathFromStore_error_has_empty_path:
  "GetPVCHostPathFromStore pvcStore pvStore namespace claimName = Returned (path, Some e)
   \<Longrightarrow> path = ''''"
  by (auto simp: GetPVCHostPathFromStore_def deref_def Let_def
           split: prod.splits if_splits option.splits)

theorem GetPVCHostPathFromStore_error_has_empty_path_witness:
  "GetPVCHostPathFromStore
       (singleStore ''ns/c1'' (ObjPVC (Some (mkClaim [] None ''v1'' ClaimBound)), True, None))
       emptyStore ''ns'' ''c1''
     = Returned ('''', Some (Errorf ''Unable to find PV %s'' [ArgString ''v1'']))"
proof -
  obtain path where r:
    "GetPVCHostPathFromStore
         (singleStore ''ns/c1'' (ObjPVC (Some (mkClaim [] None ''v1'' ClaimBound)), True, None))
         emptyStore ''ns'' ''c1''
       = Returned (path, Some (Errorf ''Unable to find PV %s'' [ArgString ''v1'']))"
    by (simp add: GetPVCHostPathFromStore_def singleStore_def emptyStore_def mkClaim_def
                  deref_def)
  from GetPVCHostPathFromStore_error_has_empty_path [OF r] r show ?thesis
    by simp
qed

text \<open>
  Claim C1 reads: when the claim store or the volume store returns an object of the
  wrong type, host-path resolution silently leaves the record pointer nil and continues
  with the phase (or host-path) inspection instead of failing. The source does leave the
  pointer nil and returns no type-mismatch error, but the inspection that follows reads a
  field through that nil pointer. At the two inputs below, a volume stored under the
  claim's key and a foreign object stored under the bound volume's name, the call does
  not continue: it panics with a nil-pointer dereference.
\<close>

theorem GetPVCHostPathFromStore_wrong_type_panics:
  "GetPVCHostPathFromStore
       (singleStore ''ns/c1'' (ObjPV (Some (mkVolume (Some \<lparr>Path = ''/data/x''\<rparr>))), True, None))
       emptyStore ''ns'' ''c1''
     = Panic NilPointerDereference
   \<and> GetPVCHostPathFromStore
       (singleStore ''ns/c1'' (ObjPVC (Some (mkClaim [] None ''v1'' ClaimBound)), True, None))
       (singleStore ''v1'' (ObjOther ''*v1.ConfigMap'', True, None))
       ''ns'' ''c1''
     = Panic NilPointerDereference"
proof -
  let ?volume = "ObjPV (Some (mkVolume (Some \<lparr>Path = ''/data/x''\<rparr>)))"
  let ?bound = "mkClaim [] None ''v1'' ClaimBound"
  let ?claims = "singleStore ''ns/c1'' (ObjPVC (Some ?bound), True, None)"
  let ?volumes = "singleStore ''v1'' (ObjOther ''*v1.ConfigMap'', True, None)"
  have s: "GetByKey (singleStore ''ns/c1'' (?volume, True, None)) (''ns'' @ ''/'' @ ''c1'')
             = (?volume, True, None)"
    by (simp add: singleStore_def)
  have t: "\<forall>p. ?volume \<noteq> ObjPVC p"
    by simp
  have c: "GetByKey ?claims (''ns'' @ ''/'' @ ''c1'') = (ObjPVC (Some ?bound), True, None)"
    by (simp add: singleStore_def)
  have ph: "Phase (Status ?bound) = ClaimBound"
    by (simp add: mkClaim_def)
  have vn: "VolumeName (Spec ?bound) \<noteq> ''''"
    by (simp add: mkClaim_def)
  have v: "GetByKey ?volumes (VolumeName (Spec ?bound)) = (ObjOther ''*v1.ConfigMap'', True, None)"
    by (simp add: singleStore_def mkClaim_def)
  have u: "\<forall>p. ObjOther ''*v1.ConfigMap'' \<noteq> ObjPV p"
    by simp
  from GetPVCHostPathFromStore_claim_mismatch [OF s t]
       GetPVCHostPathFromStore_volume_mismatch [OF c ph vn v u]
  show ?thesis
    by simp
qed

end
